theory Spec2Isabelle
  imports Main "HOL-Library.Word" "HOL-Library.Sublist"
begin

section \<open>Data model\<close>

text \<open>Go's \<open>int64\<close>: a 64-bit two's complement integer, read with \<open>sint\<close>.\<close>

type_synonym int64 = "64 word"

text \<open>
  The package's error values that the listing requests can return, and \<open>RemoteError\<close>
  for any failure that a remote listing call reports.
\<close>

datatype error =
    errBlankProject
  | errBlankZone
  | errEmptyProject
  | errEmptyZone
  | RemoteError string

text \<open>The three request structs. A request pointer is an \<open>option\<close>: \<open>None\<close> is nil.\<close>

record ZoneRequest =
  Project :: string
  OrderBy :: string
  Filter :: string
  MaxPages :: int64
  ResultsPerPage :: int64

record InstancesRequest =
  Project :: string
  OrderBy :: string
  Filter :: string
  MaxPages :: int64
  ResultsPerPage :: int64
  Zone :: string

record RecordSetRequest =
  Project :: string
  Zone :: string
  DomainName :: string
  MaxPages :: int64
  ResultsPerPage :: int64

text \<open>The three page structs; the item type of the remote API is a type parameter.\<close>

record 'a ZonePage =
  Err :: "error option"
  PageNumber :: int64
  Zones :: "'a list"

record 'a InstancePage =
  Err :: "error option"
  PageNumber :: int64
  Instances :: "'a list"

record 'a RecordSetPage =
  Err :: "error option"
  PageNumber :: int64
  RecordSets :: "'a list"

section \<open>Request validation\<close>

definition ZoneRequest_Validate :: "ZoneRequest option \<Rightarrow> error option" where
  "ZoneRequest_Validate zreq =
     (if zreq = None \<or> ZoneRequest.Project (the zreq) = '''' then Some errBlankProject
      else None)"

definition InstancesRequest_Validate :: "InstancesRequest option \<Rightarrow> error option" where
  "InstancesRequest_Validate ireq =
     (if ireq = None \<or> InstancesRequest.Zone (the ireq) = '''' then Some errBlankZone
      else if InstancesRequest.Project (the ireq) = '''' then Some errBlankProject
      else None)"

definition RecordSetRequest_Validate :: "RecordSetRequest option \<Rightarrow> error option" where
  "RecordSetRequest_Validate rreq =
     (if rreq = None \<or> RecordSetRequest.Project (the rreq) = '''' then Some errEmptyProject
      else if RecordSetRequest.Zone (the rreq) = '''' then Some errEmptyZone
      else None)"

section \<open>The remote listing API\<close>

text \<open>
  The call builders and response structs of the remote API client library
  (\<open>InstancesListCall\<close>, \<open>ZonesListCall\<close>, \<open>ResourceRecordSetsListCall\<close> and their list
  responses) are not part of the repository. A call is modelled by the parameters its
  setters store: the path parameters given to \<open>List\<close>, and the URL parameters set by
  \<open>MaxResults\<close>, \<open>Filter\<close>, \<open>OrderBy\<close>, \<open>Name\<close> and \<open>PageToken\<close>. A response carries the
  items (\<open>Items\<close>, for record sets \<open>Rrsets\<close>) and \<open>NextPageToken\<close>.
\<close>

record ListCall =
  path_params :: "string list"
  param_maxResults :: "int64 option"
  param_filter :: "string option"
  param_orderBy :: "string option"
  param_name :: "string option"
  param_pageToken :: "string option"

record 'a ListResult =
  Items :: "'a list"
  NextPageToken :: string

definition List_call :: "string list \<Rightarrow> ListCall" where
  "List_call ps = \<lparr>path_params = ps, param_maxResults = None, param_filter = None,
     param_orderBy = None, param_name = None, param_pageToken = None\<rparr>"

text \<open>
  \<open>Do\<close> performs one remote call. The remote service is a parameter: a function of its
  own state \<open>'s\<close> and of the call, returning the failure or the response, and its next
  state.
\<close>

type_synonym ('s, 'a) lister = "'s \<Rightarrow> ListCall \<Rightarrow> (error + 'a ListResult) \<times> 's"

section \<open>Effects of the background loop\<close>

text \<open>
  What a background loop does, in order: \<open>Fetch c r\<close> is the remote call \<open>c\<close> and what
  it returned, \<open>Emit p\<close> is the send of page \<open>p\<close> on the page channel, \<open>Select b\<close> is the
  throttle checkpoint (\<open>b\<close>: the cancel channel was found closed before the 350ms timer
  fired), and \<open>Close\<close> is the deferred close of the page channel.
\<close>

datatype ('a, 'p) event =
    Fetch ListCall "error + 'a ListResult"
  | Emit 'p
  | Select bool
  | Close

definition pageExceedsMax :: "int64 \<Rightarrow> int64 \<Rightarrow> bool" where
  "pageExceedsMax maxPageNumber pageNumber =
     (if sint maxPageNumber \<le> 0 then False else sint pageNumber > sint maxPageNumber)"

definition ensureHasTrailingDot :: "string \<Rightarrow> string" where
  "ensureHasTrailingDot s = (if \<not> suffix ''.'' s then s @ ''.'' else s)"

text \<open>
  The \<open>for\<close> loop of each listing goroutine, run for at most \<open>fuel\<close> iterations: the
  events of those iterations. \<open>cancelChan k\<close> tells whether the \<open>k\<close>-th checkpoint of the
  loop finds the cancel channel closed. The \<open>pageToken\<close> declared before the loop is the
  one given to \<open>PageToken\<close>; the one declared in the body (\<open>pageToken'\<close>) is a new
  variable, read by the test that ends the loop.
\<close>

fun ListInstances_loop ::
  "nat \<Rightarrow> ('s, 'a) lister \<Rightarrow> (nat \<Rightarrow> bool) \<Rightarrow> int64 \<Rightarrow> ListCall \<Rightarrow> 's \<Rightarrow> string \<Rightarrow> int64 \<Rightarrow> nat
     \<Rightarrow> ('a, 'a InstancePage) event list" where
  "ListInstances_loop 0 Do cancelChan maxPageNumber ilc s pageToken pageNumber k = []"
| "ListInstances_loop (Suc fuel) Do cancelChan maxPageNumber ilc s pageToken pageNumber k =
     (let ilc = ilc\<lparr>param_pageToken := Some pageToken\<rparr>;
          ipage = \<lparr>InstancePage.Err = None, PageNumber = pageNumber, Instances = []\<rparr>;
          (res, s) = Do s ilc
      in Fetch ilc res #
         (case res of
            Inl err \<Rightarrow> [Emit (ipage\<lparr>InstancePage.Err := Some err\<rparr>), Close]
          | Inr ilr \<Rightarrow>
              Emit (ipage\<lparr>Instances := Items ilr\<rparr>) #
              (let pageNumber = pageNumber + 1
               in if pageExceedsMax maxPageNumber pageNumber then [Close]
                  else
                    (let pageToken' = NextPageToken ilr
                     in Select (cancelChan k) #
                        (if cancelChan k then [Close]
                         else if pageToken' = '''' then [Close]
                         else ListInstances_loop fuel Do cancelChan maxPageNumber ilc s
                                pageToken pageNumber (Suc k))))))"

fun ListZones_loop ::
  "nat \<Rightarrow> ('s, 'a) lister \<Rightarrow> (nat \<Rightarrow> bool) \<Rightarrow> int64 \<Rightarrow> ListCall \<Rightarrow> 's \<Rightarrow> string \<Rightarrow> int64 \<Rightarrow> nat
     \<Rightarrow> ('a, 'a ZonePage) event list" where
  "ListZones_loop 0 Do cancelChan maxPageNumber zlc s pageToken pageNumber k = []"
| "ListZones_loop (Suc fuel) Do cancelChan maxPageNumber zlc s pageToken pageNumber k =
     (let zlc = zlc\<lparr>param_pageToken := Some pageToken\<rparr>;
          zpage = \<lparr>ZonePage.Err = None, PageNumber = pageNumber, Zones = []\<rparr>;
          (res, s) = Do s zlc
      in Fetch zlc res #
         (case res of
            Inl err \<Rightarrow> [Emit (zpage\<lparr>ZonePage.Err := Some err\<rparr>), Close]
          | Inr zlr \<Rightarrow>
              Emit (zpage\<lparr>Zones := Items zlr\<rparr>) #
              (let pageNumber = pageNumber + 1
               in if pageExceedsMax maxPageNumber pageNumber then [Close]
                  else
                    (let pageToken' = NextPageToken zlr
                     in Select (cancelChan k) #
                        (if cancelChan k then [Close]
                         else if pageToken' = '''' then [Close]
                         else ListZones_loop fuel Do cancelChan maxPageNumber zlc s
                                pageToken pageNumber (Suc k))))))"

fun ListDNSRecordSets_loop ::
  "nat \<Rightarrow> ('s, 'a) lister \<Rightarrow> (nat \<Rightarrow> bool) \<Rightarrow> int64 \<Rightarrow> ListCall \<Rightarrow> 's \<Rightarrow> string \<Rightarrow> int64 \<Rightarrow> nat
     \<Rightarrow> ('a, 'a RecordSetPage) event list" where
  "ListDNSRecordSets_loop 0 Do cancelChan maxPageNumber dnsLc s pageToken pageNumber k = []"
| "ListDNSRecordSets_loop (Suc fuel) Do cancelChan maxPageNumber dnsLc s pageToken pageNumber k =
     (let dnsLc = dnsLc\<lparr>param_pageToken := Some pageToken\<rparr>;
          dPage = \<lparr>RecordSetPage.Err = None, PageNumber = pageNumber, RecordSets = []\<rparr>;
          (res, s) = Do s dnsLc
      in Fetch dnsLc res #
         (case res of
            Inl err \<Rightarrow> [Emit (dPage\<lparr>RecordSetPage.Err := Some err\<rparr>), Close]
          | Inr dRes \<Rightarrow>
              Emit (dPage\<lparr>RecordSets := Items dRes\<rparr>) #
              (let pageNumber = pageNumber + 1
               in if pageExceedsMax maxPageNumber pageNumber then [Close]
                  else
                    (let pageToken' = NextPageToken dRes
                     in Select (cancelChan k) #
                        (if cancelChan k then [Close]
                         else if pageToken' = '''' then [Close]
                         else ListDNSRecordSets_loop fuel Do cancelChan maxPageNumber dnsLc s
                                pageToken pageNumber (Suc k))))))"

text \<open>
  The listing calls. A request that fails validation returns the error and nothing
  else. Otherwise the call returns the response, whose \<open>Pages\<close> channel is fed by the
  goroutine started here: the response is modelled by what that goroutine does within
  any number of iterations.
\<close>

definition ListInstances ::
  "('s, 'a) lister \<Rightarrow> (nat \<Rightarrow> bool) \<Rightarrow> 's \<Rightarrow> InstancesRequest option
     \<Rightarrow> error + (nat \<Rightarrow> ('a, 'a InstancePage) event list)" where
  "ListInstances Do cancelChan s req =
     (case InstancesRequest_Validate req of
        Some err \<Rightarrow> Inl err
      | None \<Rightarrow>
          (let maxPageNumber = InstancesRequest.MaxPages (the req);
               maxResultsPerPage =
                 (if sint (InstancesRequest.ResultsPerPage (the req)) > 0
                  then InstancesRequest.ResultsPerPage (the req) else 40)
           in Inr (\<lambda>fuel.
                (let ilc = List_call [InstancesRequest.Project (the req),
                                      InstancesRequest.Zone (the req)];
                     ilc = ilc\<lparr>param_maxResults := Some maxResultsPerPage\<rparr>;
                     ilc = (if InstancesRequest.Filter (the req) \<noteq> ''''
                            then ilc\<lparr>param_filter := Some (InstancesRequest.Filter (the req))\<rparr>
                            else ilc);
                     ilc = (if InstancesRequest.OrderBy (the req) \<noteq> ''''
                            then ilc\<lparr>param_orderBy := Some (InstancesRequest.OrderBy (the req))\<rparr>
                            else ilc)
                 in ListInstances_loop fuel Do cancelChan maxPageNumber ilc s '''' 0 0))))"

definition ListZones ::
  "('s, 'a) lister \<Rightarrow> (nat \<Rightarrow> bool) \<Rightarrow> 's \<Rightarrow> ZoneRequest option
     \<Rightarrow> error + (nat \<Rightarrow> ('a, 'a ZonePage) event list)" where
  "ListZones Do cancelChan s req =
     (case ZoneRequest_Validate req of
        Some err \<Rightarrow> Inl err
      | None \<Rightarrow>
          (let maxPageNumber = ZoneRequest.MaxPages (the req);
               maxResultsPerPage =
                 (if sint (ZoneRequest.ResultsPerPage (the req)) > 0
                  then ZoneRequest.ResultsPerPage (the req) else 40)
           in Inr (\<lambda>fuel.
                (let zlc = List_call [ZoneRequest.Project (the req)];
                     zlc = zlc\<lparr>param_maxResults := Some maxResultsPerPage\<rparr>;
                     zlc = (if ZoneRequest.Filter (the req) \<noteq> ''''
                            then zlc\<lparr>param_filter := Some (ZoneRequest.Filter (the req))\<rparr>
                            else zlc);
                     zlc = (if ZoneRequest.OrderBy (the req) \<noteq> ''''
                            then zlc\<lparr>param_orderBy := Some (ZoneRequest.OrderBy (the req))\<rparr>
                            else zlc)
                 in ListZones_loop fuel Do cancelChan maxPageNumber zlc s '''' 0 0))))"

definition ListDNSRecordSets ::
  "('s, 'a) lister \<Rightarrow> (nat \<Rightarrow> bool) \<Rightarrow> 's \<Rightarrow> RecordSetRequest option
     \<Rightarrow> error + (nat \<Rightarrow> ('a, 'a RecordSetPage) event list)" where
  "ListDNSRecordSets Do cancelChan s rreq =
     (case RecordSetRequest_Validate rreq of
        Some err \<Rightarrow> Inl err
      | None \<Rightarrow>
          (let maxPageNumber = RecordSetRequest.MaxPages (the rreq);
               maxResultsPerPage =
                 (if sint (RecordSetRequest.ResultsPerPage (the rreq)) > 0
                  then RecordSetRequest.ResultsPerPage (the rreq) else 40)
           in Inr (\<lambda>fuel.
                (let dnsLc = List_call [RecordSetRequest.Project (the rreq),
                                        RecordSetRequest.Zone (the rreq)];
                     dnsLc = dnsLc\<lparr>param_maxResults := Some maxResultsPerPage\<rparr>;
                     dnsLc = (if RecordSetRequest.DomainName (the rreq) \<noteq> ''''
                              then dnsLc\<lparr>param_name :=
                                     Some (ensureHasTrailingDot (RecordSetRequest.DomainName (the rreq)))\<rparr>
                              else dnsLc)
                 in ListDNSRecordSets_loop fuel Do cancelChan maxPageNumber dnsLc s '''' 0 0))))"

section \<open>The canceler\<close>

text \<open>
  \<open>makeCanceler\<close> returns the cancel channel and the cancel function. Its state is the
  \<open>sync.Once\<close> (has its function been run) and the channel (nothing is ever sent on it, so
  all that matters is whether it is closed). Closing a closed channel panics; \<open>Once.Do\<close>
  runs its function on the first call only.
\<close>

datatype panic = close_of_closed_channel

record Canceler =
  cancelOnce_done :: bool
  cancelChan_closed :: bool

definition makeCanceler :: Canceler where
  "makeCanceler = \<lparr>cancelOnce_done = False, cancelChan_closed = False\<rparr>"

definition close_cancelChan :: "Canceler \<Rightarrow> panic + Canceler" where
  "close_cancelChan c =
     (if cancelChan_closed c then Inl close_of_closed_channel
      else Inr (c\<lparr>cancelChan_closed := True\<rparr>))"

definition cancel :: "Canceler \<Rightarrow> panic + (error option \<times> Canceler)" where
  "cancel c =
     (let err = None
      in if cancelOnce_done c then Inr (err, c)
         else (case close_cancelChan (c\<lparr>cancelOnce_done := True\<rparr>) of
                 Inl p \<Rightarrow> Inl p
               | Inr c' \<Rightarrow> Inr (err, c')))"

text \<open>
  \<open>cancel_times n c\<close>: the cancel function invoked \<open>n\<close> times in a row: the errors it
  returned and the final state, or the panic. \<open>cancel_signal n\<close>: what a checkpoint of
  the loop finds when the consumer has invoked the cancel function \<open>n\<close> times so far.
\<close>

fun cancel_times :: "nat \<Rightarrow> Canceler \<Rightarrow> panic + (error option list \<times> Canceler)" where
  "cancel_times 0 c = Inr ([], c)"
| "cancel_times (Suc n) c =
     (case cancel c of
        Inl p \<Rightarrow> Inl p
      | Inr (err, c') \<Rightarrow>
          (case cancel_times n c' of
             Inl p \<Rightarrow> Inl p
           | Inr (errs, c'') \<Rightarrow> Inr (err # errs, c'')))"

definition cancel_signal :: "nat \<Rightarrow> bool" where
  "cancel_signal n =
     (case cancel_times n makeCanceler of
        Inl p \<Rightarrow> False
      | Inr (errs, c) \<Rightarrow> cancelChan_closed c)"

section \<open>Reading a run\<close>

text \<open>The pages sent on the page channel, in order.\<close>

fun pages_of :: "('a, 'p) event list \<Rightarrow> 'p list" where
  "pages_of [] = []"
| "pages_of (Emit p # t) = p # pages_of t"
| "pages_of (Fetch c r # t) = pages_of t"
| "pages_of (Select b # t) = pages_of t"
| "pages_of (Close # t) = pages_of t"

text \<open>The remote calls made, in order.\<close>

fun calls_of :: "('a, 'p) event list \<Rightarrow> ListCall list" where
  "calls_of [] = []"
| "calls_of (Fetch c r # t) = c # calls_of t"
| "calls_of (Emit p # t) = calls_of t"
| "calls_of (Select b # t) = calls_of t"
| "calls_of (Close # t) = calls_of t"

text \<open>
  What the goroutine of a listing call does within \<open>fuel\<close> iterations; a call that
  returned an error started none.
\<close>

definition goroutine :: "error + (nat \<Rightarrow> 'e list) \<Rightarrow> nat \<Rightarrow> 'e list" where
  "goroutine res fuel = (case res of Inl err \<Rightarrow> [] | Inr run \<Rightarrow> run fuel)"

text \<open>The run of each listing call's goroutine, for a remote service, a cancel signal and a request.\<close>

definition ListInstances_run ::
  "('s, 'a) lister \<Rightarrow> (nat \<Rightarrow> bool) \<Rightarrow> 's \<Rightarrow> InstancesRequest option \<Rightarrow> nat
     \<Rightarrow> ('a, 'a InstancePage) event list" where
  "ListInstances_run Do cancelChan s req fuel = goroutine (ListInstances Do cancelChan s req) fuel"

definition ListZones_run ::
  "('s, 'a) lister \<Rightarrow> (nat \<Rightarrow> bool) \<Rightarrow> 's \<Rightarrow> ZoneRequest option \<Rightarrow> nat
     \<Rightarrow> ('a, 'a ZonePage) event list" where
  "ListZones_run Do cancelChan s req fuel = goroutine (ListZones Do cancelChan s req) fuel"

definition ListDNSRecordSets_run ::
  "('s, 'a) lister \<Rightarrow> (nat \<Rightarrow> bool) \<Rightarrow> 's \<Rightarrow> RecordSetRequest option \<Rightarrow> nat
     \<Rightarrow> ('a, 'a RecordSetPage) event list" where
  "ListDNSRecordSets_run Do cancelChan s rreq fuel =
     goroutine (ListDNSRecordSets Do cancelChan s rreq) fuel"

text \<open>
  The page stream a consumer sees: number, items and error of each page, and whether
  the channel has been closed.
\<close>

definition page_stream :: "('p \<Rightarrow> 'v) \<Rightarrow> ('a, 'p) event list \<Rightarrow> 'v list \<times> bool" where
  "page_stream view t = (map view (pages_of t), Close \<in> set t)"

definition InstancePage_view :: "'a InstancePage \<Rightarrow> int64 \<times> 'a list \<times> error option" where
  "InstancePage_view p = (InstancePage.PageNumber p, Instances p, InstancePage.Err p)"

definition ZonePage_view :: "'a ZonePage \<Rightarrow> int64 \<times> 'a list \<times> error option" where
  "ZonePage_view p = (ZonePage.PageNumber p, Zones p, ZonePage.Err p)"

definition RecordSetPage_view :: "'a RecordSetPage \<Rightarrow> int64 \<times> 'a list \<times> error option" where
  "RecordSetPage_view p = (RecordSetPage.PageNumber p, RecordSets p, RecordSetPage.Err p)"

text \<open>
  The loop the three listing loops have in common, over the constructor \<open>mk\<close> of the
  page struct. It is used in the proofs only, through the three equations below that
  identify each loop of the source with it.
\<close>

fun paginate ::
  "(error option \<Rightarrow> int64 \<Rightarrow> 'a list \<Rightarrow> 'p) \<Rightarrow> nat \<Rightarrow> ('s, 'a) lister \<Rightarrow> (nat \<Rightarrow> bool) \<Rightarrow> int64 \<Rightarrow>
     ListCall \<Rightarrow> 's \<Rightarrow> string \<Rightarrow> int64 \<Rightarrow> nat \<Rightarrow> ('a, 'p) event list" where
  "paginate mk 0 Do cancelChan m lc s tok pn k = []"
| "paginate mk (Suc fuel) Do cancelChan m lc s tok pn k =
     (case Do s (lc\<lparr>param_pageToken := Some tok\<rparr>) of
        (Inl err, s') \<Rightarrow>
          [Fetch (lc\<lparr>param_pageToken := Some tok\<rparr>) (Inl err), Emit (mk (Some err) pn []), Close]
      | (Inr r, s') \<Rightarrow>
          Fetch (lc\<lparr>param_pageToken := Some tok\<rparr>) (Inr r) # Emit (mk None pn (Items r)) #
          (if pageExceedsMax m (pn + 1) then [Close]
           else Select (cancelChan k) #
                (if cancelChan k \<or> NextPageToken r = '''' then [Close]
                 else paginate mk fuel Do cancelChan m (lc\<lparr>param_pageToken := Some tok\<rparr>) s' tok
                        (pn + 1) (Suc k))))"

definition mkInstancePage :: "error option \<Rightarrow> int64 \<Rightarrow> 'a list \<Rightarrow> 'a InstancePage" where
  "mkInstancePage e n xs = \<lparr>InstancePage.Err = e, PageNumber = n, Instances = xs\<rparr>"

definition mkZonePage :: "error option \<Rightarrow> int64 \<Rightarrow> 'a list \<Rightarrow> 'a ZonePage" where
  "mkZonePage e n xs = \<lparr>ZonePage.Err = e, PageNumber = n, Zones = xs\<rparr>"

definition mkRecordSetPage :: "error option \<Rightarrow> int64 \<Rightarrow> 'a list \<Rightarrow> 'a RecordSetPage" where
  "mkRecordSetPage e n xs = \<lparr>RecordSetPage.Err = e, PageNumber = n, RecordSets = xs\<rparr>"

section \<open>Concrete requests and remote services\<close>

text \<open>Well-formed requests, with the page bound and the page size as parameters.\<close>

definition instances_request :: "int64 \<Rightarrow> int64 \<Rightarrow> InstancesRequest" where
  "instances_request m n = \<lparr>InstancesRequest.Project = ''proj'', OrderBy = '''', Filter = '''',
     MaxPages = m, ResultsPerPage = n, Zone = ''zone-a''\<rparr>"

definition zone_request :: "int64 \<Rightarrow> int64 \<Rightarrow> ZoneRequest" where
  "zone_request m n = \<lparr>ZoneRequest.Project = ''proj'', OrderBy = '''', Filter = '''',
     MaxPages = m, ResultsPerPage = n\<rparr>"

definition recordset_request :: "int64 \<Rightarrow> int64 \<Rightarrow> RecordSetRequest" where
  "recordset_request m n = \<lparr>RecordSetRequest.Project = ''proj'', Zone = ''zone-a'',
     DomainName = '''', MaxPages = m, ResultsPerPage = n\<rparr>"

text \<open>
  A remote collection of two pages, served by page token as the remote API does: the
  empty token gives the first page and the token of the second, that token gives the
  second page and the empty token.
\<close>

definition two_page_collection :: "(unit, string) lister" where
  "two_page_collection s c =
     (if param_pageToken c = Some '''' then
        (Inr \<lparr>Items = [''a'', ''b''], NextPageToken = ''t1''\<rparr>, s)
      else if param_pageToken c = Some ''t1'' then
        (Inr \<lparr>Items = [''c''], NextPageToken = ''''\<rparr>, s)
      else (Inl (RemoteError ''invalid page token''), s))"

text \<open>A remote service whose every call fails.\<close>

definition failing_service :: "(unit, string) lister" where
  "failing_service s c = (Inl (RemoteError ''unavailable''), s)"

text \<open>
  A remote service that answers its \<open>i\<close>-th call with \<open>rs i\<close>, whatever the call: the
  service seen as the sequence of its fetch results.
\<close>

definition seq_lister :: "(nat \<Rightarrow> error + 'a ListResult) \<Rightarrow> (nat, 'a) lister" where
  "seq_lister rs i c = (rs i, Suc i)"

text \<open>Three pages in sequence, the last with the empty token.\<close>

definition three_pages :: "nat \<Rightarrow> error + string ListResult" where
  "three_pages i =
     (if i = 0 then Inr \<lparr>Items = [''a'', ''b''], NextPageToken = ''t1''\<rparr>
      else if i = 1 then Inr \<lparr>Items = [''c''], NextPageToken = ''t2''\<rparr>
      else Inr \<lparr>Items = [], NextPageToken = ''''\<rparr>)"

text \<open>A first page, then a failure.\<close>

definition second_fails :: "nat \<Rightarrow> error + string ListResult" where
  "second_fails i =
     (if i = 0 then Inr \<lparr>Items = [''a'', ''b''], NextPageToken = ''t1''\<rparr>
      else Inl (RemoteError ''unavailable''))"

text \<open>
  The call that the requests above make when their page size is 0: the path parameters,
  \<open>maxResults\<close> 40 and the empty page token.
\<close>

definition default_call :: "string list \<Rightarrow> ListCall" where
  "default_call ps = \<lparr>path_params = ps, param_maxResults = Some 40, param_filter = None,
     param_orderBy = None, param_name = None, param_pageToken = Some ''''\<rparr>"

section \<open>The three loops are one loop\<close>

lemma ListInstances_loop_paginate:
  "ListInstances_loop fuel Do cc m lc s tok pn k =
     paginate mkInstancePage fuel Do cc m lc s tok pn k"
  by (induction fuel arbitrary: lc s pn k)
     (simp_all add: Let_def mkInstancePage_def split: prod.splits sum.splits)

lemma ListZones_loop_paginate:
  "ListZones_loop fuel Do cc m lc s tok pn k = paginate mkZonePage fuel Do cc m lc s tok pn k"
  by (induction fuel arbitrary: lc s pn k)
     (simp_all add: Let_def mkZonePage_def split: prod.splits sum.splits)

lemma ListDNSRecordSets_loop_paginate:
  "ListDNSRecordSets_loop fuel Do cc m lc s tok pn k =
     paginate mkRecordSetPage fuel Do cc m lc s tok pn k"
  by (induction fuel arbitrary: lc s pn k)
     (simp_all add: Let_def mkRecordSetPage_def split: prod.splits sum.splits)

text \<open>
  The goroutine of each listing call is a run of that loop from page token \<open>''''\<close> and
  page number 0, on a call whose \<open>maxResults\<close> is the resolved page size (no iteration
  at all when the request was rejected).
\<close>

lemma ex_call_maxResults: "\<exists>lc :: ListCall. param_maxResults lc = Some v"
  by (rule exI [of _ "(List_call [])\<lparr>param_maxResults := Some v\<rparr>"]) simp

lemma run_ListInstances:
  "\<exists>n lc. ListInstances_run Do cc s req fuel =
            paginate mkInstancePage n Do cc (InstancesRequest.MaxPages (the req)) lc s '''' 0 0 \<and>
          param_maxResults lc =
            Some (if sint (InstancesRequest.ResultsPerPage (the req)) > 0
                  then InstancesRequest.ResultsPerPage (the req) else 40)"
proof (cases "InstancesRequest_Validate req")
  case None
  show ?thesis
    apply (rule exI [of _ fuel])
    apply (simp only: ListInstances_run_def ListInstances_def goroutine_def None option.case Let_def sum.case
                      ListInstances_loop_paginate)
    apply (rule exI, rule conjI, rule refl)
    apply simp
    done
next
  case (Some err)
  show ?thesis
    apply (rule exI [of _ 0])
    apply (simp add: ListInstances_run_def ListInstances_def goroutine_def Some ex_call_maxResults)
    done
qed

lemma run_ListZones:
  "\<exists>n lc. ListZones_run Do cc s req fuel =
            paginate mkZonePage n Do cc (ZoneRequest.MaxPages (the req)) lc s '''' 0 0 \<and>
          param_maxResults lc =
            Some (if sint (ZoneRequest.ResultsPerPage (the req)) > 0
                  then ZoneRequest.ResultsPerPage (the req) else 40)"
proof (cases "ZoneRequest_Validate req")
  case None
  show ?thesis
    apply (rule exI [of _ fuel])
    apply (simp only: ListZones_run_def ListZones_def goroutine_def None option.case Let_def sum.case
                      ListZones_loop_paginate)
    apply (rule exI, rule conjI, rule refl)
    apply simp
    done
next
  case (Some err)
  show ?thesis
    apply (rule exI [of _ 0])
    apply (simp add: ListZones_run_def ListZones_def goroutine_def Some ex_call_maxResults)
    done
qed

lemma run_ListDNSRecordSets:
  "\<exists>n lc. ListDNSRecordSets_run Do cc s req fuel =
            paginate mkRecordSetPage n Do cc (RecordSetRequest.MaxPages (the req)) lc s '''' 0 0 \<and>
          param_maxResults lc =
            Some (if sint (RecordSetRequest.ResultsPerPage (the req)) > 0
                  then RecordSetRequest.ResultsPerPage (the req) else 40)"
proof (cases "RecordSetRequest_Validate req")
  case None
  show ?thesis
    apply (rule exI [of _ fuel])
    apply (simp only: ListDNSRecordSets_run_def ListDNSRecordSets_def goroutine_def None option.case Let_def sum.case
                      ListDNSRecordSets_loop_paginate)
    apply (rule exI, rule conjI, rule refl)
    apply simp
    done
next
  case (Some err)
  show ?thesis
    apply (rule exI [of _ 0])
    apply (simp add: ListDNSRecordSets_run_def ListDNSRecordSets_def goroutine_def Some ex_call_maxResults)
    done
qed

section \<open>Properties of every run of the loop\<close>

lemma upt_shift: "map f [0..<Suc n] = f 0 # map (\<lambda>i. f (Suc i)) [0..<n]"
  by (simp add: upt_conv_Cons map_Suc_upt [symmetric] del: upt_Suc)

lemma paginate_numbers:
  assumes num: "\<And>e n xs. num (mk e n xs) = n"
  shows "map num (pages_of (paginate mk fuel Do cc m lc s tok pn k)) =
         map (\<lambda>i. pn + of_nat i) [0..<length (pages_of (paginate mk fuel Do cc m lc s tok pn k))]"
proof (induction fuel arbitrary: lc s pn k)
  case 0
  show ?case by simp
next
  case (Suc fuel)
  show ?case
    by (simp add: num Suc upt_shift add.assoc split: prod.splits sum.splits del: upt_Suc)
qed

lemma paginate_failed_fetch:
  "paginate mk fuel Do cc m lc s tok pn k = pre @ Fetch c (Inl e) # post \<Longrightarrow>
   post = [Emit (mk (Some e) (pn + of_nat (length (pages_of pre))) []), Close]"
proof (induction fuel arbitrary: lc s pn k pre)
  case 0
  then show ?case by simp
next
  case (Suc fuel)
  from Suc.prems show ?case
    by (auto simp: Cons_eq_append_conv add.assoc split: prod.splits sum.splits if_splits
        dest!: Suc.IH)
qed

lemma paginate_select:
  "paginate mk fuel Do cc m lc s tok pn k = pre @ Select b # post \<Longrightarrow>
   (\<exists>pre' c r. pre = pre' @ [Fetch c (Inr r),
       Emit (mk None (pn + of_nat (length (pages_of pre'))) (Items r))]) \<and>
   (b \<longrightarrow> post = [Close])"
proof (induction fuel arbitrary: lc s pn k pre)
  case 0
  then show ?case by simp
next
  case (Suc fuel)
  from Suc.prems show ?case
    by (auto simp: Cons_eq_append_conv add.assoc split: prod.splits sum.splits if_splits
        dest!: Suc.IH)
qed

lemma paginate_fetched:
  "paginate mk fuel Do cc m lc s tok pn k = pre @ Fetch c (Inr r) # post \<Longrightarrow>
   (\<exists>post'. post = Emit (mk None (pn + of_nat (length (pages_of pre))) (Items r)) # post')"
proof (induction fuel arbitrary: lc s pn k pre)
  case 0
  then show ?case by simp
next
  case (Suc fuel)
  from Suc.prems show ?case
    by (auto simp: Cons_eq_append_conv add.assoc split: prod.splits sum.splits if_splits
        dest!: Suc.IH)
qed

lemma sint_of_nat_small: "i < 2 ^ 63 \<Longrightarrow> sint (of_nat i :: 64 word) = int i"
proof -
  assume i: "i < 2 ^ 63"
  have "sint (of_nat i :: 64 word) = sint (word_of_int (int i) :: 64 word)"
    by simp
  also have "\<dots> = signed_take_bit 63 (int i)"
    by (simp only: sint_sbintrunc') simp
  also have "\<dots> = int i"
  proof (rule signed_take_bit_int_eq_self)
    show "- (2 ^ 63) \<le> int i" by (rule order_trans [of _ 0]) simp_all
    from i have "int i < int (2 ^ 63)" by (simp only: of_nat_less_iff)
    then show "int i < 2 ^ 63" by simp
  qed
  finally show ?thesis .
qed

lemma numbered_sint_of:
  assumes eq: "map num ps = map of_nat [0..<length ps]" and len: "length ps \<le> 2 ^ 63"
  shows "map (\<lambda>p. sint (num p :: int64)) ps = map int [0..<length ps]"
proof (rule nth_equalityI)
  show "length (map (\<lambda>p. sint (num p)) ps) = length (map int [0..<length ps])" by simp
next
  fix i assume "i < length (map (\<lambda>p. sint (num p)) ps)"
  then have i: "i < length ps" by simp
  with len have small: "i < 2 ^ 63" by simp
  have "map num ps ! i = map of_nat [0..<length ps] ! i"
    by (simp only: eq)
  with i have "num (ps ! i) = of_nat i" by simp
  with i small show "map (\<lambda>p. sint (num p)) ps ! i = map int [0..<length ps] ! i"
    by (simp add: sint_of_nat_small)
qed

lemma paginate_calls:
  "calls_of (paginate mk fuel Do cc m lc s tok pn k) =
     replicate (length (calls_of (paginate mk fuel Do cc m lc s tok pn k)))
       (lc\<lparr>param_pageToken := Some tok\<rparr>)"
proof (induction fuel arbitrary: lc s pn k)
  case 0
  show ?case by simp
next
  case (Suc fuel)
  obtain res s' where D: "Do s (lc\<lparr>param_pageToken := Some tok\<rparr>) = (res, s')"
    by (cases "Do s (lc\<lparr>param_pageToken := Some tok\<rparr>)")
  show ?case
  proof (cases res)
    case (Inl e)
    with D show ?thesis by simp
  next
    case (Inr x)
    with D Suc [of "lc\<lparr>param_pageToken := Some tok\<rparr>" s' "pn + 1" "Suc k"] show ?thesis
      by simp
  qed
qed

lemma paginate_seq_agree:
  assumes v: "\<And>e n xs. v (mk e n xs) = v' (mk' e n xs)"
  shows "page_stream v (paginate mk fuel (seq_lister rs) cc m lc i tok pn k) =
         page_stream v' (paginate mk' fuel (seq_lister rs) cc m lc' i tok' pn k)"
proof (induction fuel arbitrary: lc lc' i pn k)
  case 0
  show ?case by (simp add: page_stream_def)
next
  case (Suc fuel)
  show ?case
  proof (cases "rs i")
    case (Inl e)
    then show ?thesis by (simp add: page_stream_def seq_lister_def v)
  next
    case (Inr x)
    with Suc [of "lc\<lparr>param_pageToken := Some tok\<rparr>" "Suc i" "pn + 1" "Suc k"
                 "lc'\<lparr>param_pageToken := Some tok'\<rparr>"]
    show ?thesis by (simp add: page_stream_def seq_lister_def v)
  qed
qed

text \<open>
  A service that answers the call for the first page with a page and a non-empty token,
  without bound on the pages and without cancellation: every iteration fetches and
  emits that page again, and the loop never ends.
\<close>

lemma paginate_refetch:
  "Do s (lc\<lparr>param_pageToken := Some tok\<rparr>) = (Inr r, s) \<Longrightarrow> NextPageToken r \<noteq> '''' \<Longrightarrow>
   pages_of (paginate mk fuel Do (\<lambda>k. False) 0 lc s tok pn k) =
     map (\<lambda>i. mk None (pn + of_nat i) (Items r)) [0..<fuel] \<and>
   Close \<notin> set (paginate mk fuel Do (\<lambda>k. False) 0 lc s tok pn k) \<and>
   length (calls_of (paginate mk fuel Do (\<lambda>k. False) 0 lc s tok pn k)) = fuel"
proof (induction fuel arbitrary: lc pn k)
  case 0
  show ?case by simp
next
  case (Suc fuel)
  have "Do s (lc\<lparr>param_pageToken := Some tok\<rparr>\<lparr>param_pageToken := Some tok\<rparr>) = (Inr r, s)"
    using Suc.prems(1) by simp
  from Suc.IH [OF this Suc.prems(2), of "pn + 1" "Suc k"] Suc.prems show ?case
    by (simp add: pageExceedsMax_def upt_shift add.assoc del: upt_Suc)
qed

lemma run_ListInstances_valid:
  "InstancesRequest_Validate req = None \<Longrightarrow>
   \<exists>lc. ListInstances_run Do cc s req fuel =
           paginate mkInstancePage fuel Do cc (InstancesRequest.MaxPages (the req)) lc s '''' 0 0"
  apply (simp only: ListInstances_run_def ListInstances_def goroutine_def option.case sum.case Let_def
      ListInstances_loop_paginate)
  apply (rule exI, rule refl)
  done

lemma run_ListZones_valid:
  "ZoneRequest_Validate req = None \<Longrightarrow>
   \<exists>lc. ListZones_run Do cc s req fuel =
           paginate mkZonePage fuel Do cc (ZoneRequest.MaxPages (the req)) lc s '''' 0 0"
  apply (simp only: ListZones_run_def ListZones_def goroutine_def option.case sum.case Let_def
      ListZones_loop_paginate)
  apply (rule exI, rule refl)
  done

lemma run_ListDNSRecordSets_valid:
  "RecordSetRequest_Validate req = None \<Longrightarrow>
   \<exists>lc. ListDNSRecordSets_run Do cc s req fuel =
           paginate mkRecordSetPage fuel Do cc (RecordSetRequest.MaxPages (the req)) lc s '''' 0 0"
  apply (simp only: ListDNSRecordSets_run_def ListDNSRecordSets_def goroutine_def option.case sum.case Let_def
      ListDNSRecordSets_loop_paginate)
  apply (rule exI, rule refl)
  done

lemmas run_defs = ListInstances_run_def ListInstances_def ListZones_run_def ListZones_def
  ListDNSRecordSets_run_def ListDNSRecordSets_def goroutine_def
  InstancesRequest_Validate_def ZoneRequest_Validate_def RecordSetRequest_Validate_def
  instances_request_def zone_request_def recordset_request_def
  List_call_def pageExceedsMax_def Let_def

section \<open>Validation of listing requests\<close>

text \<open>
  C10. Each \<open>Validate\<close> method tests its receiver for nil before it reads a field, so a
  listing call on a nil request returns the request type's missing-field error (blank
  project for zones, blank zone for instances, empty project for record sets) rather
  than dereferencing nil.
\<close>

theorem nil_request_returns_validation_error:
  "ZoneRequest_Validate None = Some errBlankProject \<and>
   InstancesRequest_Validate None = Some errBlankZone \<and>
   RecordSetRequest_Validate None = Some errEmptyProject \<and>
   ListZones Do cancelChan s None = Inl errBlankProject \<and>
   ListInstances Do' cancelChan' s' None = Inl errBlankZone \<and>
   ListDNSRecordSets Do'' cancelChan'' s'' None = Inl errEmptyProject"
  by (simp add: ZoneRequest_Validate_def InstancesRequest_Validate_def
      RecordSetRequest_Validate_def ListZones_def ListInstances_def ListDNSRecordSets_def)

section \<open>Rejected requests\<close>

text \<open>
  C8. A listing request with a required field missing (nil or empty project for zones;
  nil, empty zone or empty project for instances and for record sets) makes the listing
  call return the validation error and nothing else: the goroutine that would feed a page
  stream is not started, so no remote call is made and no page is emitted.
\<close>

theorem malformed_request_rejected:
  "((zreq = None \<or> ZoneRequest.Project (the zreq) = '''') \<longrightarrow>
      ListZones Do cc s zreq = Inl errBlankProject \<and> ListZones_run Do cc s zreq fuel = []) \<and>
   ((ireq = None \<or> InstancesRequest.Zone (the ireq) = '''' \<or>
     InstancesRequest.Project (the ireq) = '''') \<longrightarrow>
      (\<exists>err. InstancesRequest_Validate ireq = Some err \<and> err \<in> {errBlankZone, errBlankProject} \<and>
             ListInstances Do cc s ireq = Inl err) \<and>
      ListInstances_run Do cc s ireq fuel = []) \<and>
   ((rreq = None \<or> RecordSetRequest.Project (the rreq) = '''' \<or>
     RecordSetRequest.Zone (the rreq) = '''') \<longrightarrow>
      (\<exists>err. RecordSetRequest_Validate rreq = Some err \<and> err \<in> {errEmptyProject, errEmptyZone} \<and>
             ListDNSRecordSets Do cc s rreq = Inl err) \<and>
      ListDNSRecordSets_run Do cc s rreq fuel = [])"
  by (simp add: ZoneRequest_Validate_def InstancesRequest_Validate_def
      RecordSetRequest_Validate_def ListZones_def ListInstances_def ListDNSRecordSets_def
      ListZones_run_def ListInstances_run_def ListDNSRecordSets_run_def goroutine_def)

theorem malformed_request_rejected_witness:
  "ZoneRequest.Project (the (Some ((zone_request 0 0)\<lparr>ZoneRequest.Project := ''''\<rparr>))) = '''' \<and>
   ListZones two_page_collection (\<lambda>k. False) ()
     (Some ((zone_request 0 0)\<lparr>ZoneRequest.Project := ''''\<rparr>)) = Inl errBlankProject \<and>
   InstancesRequest.Project
     (the (Some ((instances_request 0 0)\<lparr>InstancesRequest.Project := ''''\<rparr>))) = '''' \<and>
   ListInstances two_page_collection (\<lambda>k. False) ()
     (Some ((instances_request 0 0)\<lparr>InstancesRequest.Project := ''''\<rparr>)) = Inl errBlankProject \<and>
   ListInstances_run two_page_collection (\<lambda>k. False) ()
     (Some ((instances_request 0 0)\<lparr>InstancesRequest.Project := ''''\<rparr>)) 7 = [] \<and>
   RecordSetRequest.Zone
     (the (Some ((recordset_request 0 0)\<lparr>RecordSetRequest.Zone := ''''\<rparr>))) = '''' \<and>
   ListDNSRecordSets two_page_collection (\<lambda>k. False) ()
     (Some ((recordset_request 0 0)\<lparr>RecordSetRequest.Zone := ''''\<rparr>)) = Inl errEmptyZone"
proof -
  have hZ: "ZoneRequest.Project
      (the (Some ((zone_request 0 0)\<lparr>ZoneRequest.Project := ''''\<rparr>))) = ''''"
    by (simp add: zone_request_def)
  have hI: "InstancesRequest.Project
      (the (Some ((instances_request 0 0)\<lparr>InstancesRequest.Project := ''''\<rparr>))) = ''''"
    by (simp add: instances_request_def)
  have hR: "RecordSetRequest.Zone
      (the (Some ((recordset_request 0 0)\<lparr>RecordSetRequest.Zone := ''''\<rparr>))) = ''''"
    by (simp add: recordset_request_def)
  have vI: "InstancesRequest_Validate
      (Some ((instances_request 0 0)\<lparr>InstancesRequest.Project := ''''\<rparr>)) = Some errBlankProject"
    by (simp add: InstancesRequest_Validate_def instances_request_def)
  have vR: "RecordSetRequest_Validate
      (Some ((recordset_request 0 0)\<lparr>RecordSetRequest.Zone := ''''\<rparr>)) = Some errEmptyZone"
    by (simp add: RecordSetRequest_Validate_def recordset_request_def)
  from hZ hI hR vI vR
    malformed_request_rejected [where Do = two_page_collection and cc = "\<lambda>k. False"
      and s = "()" and fuel = 7
      and zreq = "Some ((zone_request 0 0)\<lparr>ZoneRequest.Project := ''''\<rparr>)"
      and ireq = "Some ((instances_request 0 0)\<lparr>InstancesRequest.Project := ''''\<rparr>)"
      and rreq = "Some ((recordset_request 0 0)\<lparr>RecordSetRequest.Zone := ''''\<rparr>)"]
  show ?thesis by auto
qed

section \<open>Page numbering\<close>

text \<open>
  C5. In every page stream of the three listing operations the pages are numbered
  0, 1, 2, ... in the order they are emitted: the \<open>i\<close>-th page carries \<open>i\<close> (as an \<open>int64\<close>,
  each number being the one before plus 1), and while the stream has at most \<open>2^63\<close>
  pages that \<open>int64\<close> reads as the integer \<open>i\<close>.
\<close>

theorem page_numbers_count_up_from_zero:
  "map InstancePage.PageNumber (pages_of (ListInstances_run Do cc s ireq fuel)) =
     map of_nat [0..<length (pages_of (ListInstances_run Do cc s ireq fuel))] \<and>
   map ZonePage.PageNumber (pages_of (ListZones_run Do cc s zreq fuel)) =
     map of_nat [0..<length (pages_of (ListZones_run Do cc s zreq fuel))] \<and>
   map RecordSetPage.PageNumber (pages_of (ListDNSRecordSets_run Do cc s rreq fuel)) =
     map of_nat [0..<length (pages_of (ListDNSRecordSets_run Do cc s rreq fuel))] \<and>
   (length (pages_of (ListInstances_run Do cc s ireq fuel)) \<le> 2 ^ 63 \<longrightarrow>
      map (\<lambda>p. sint (InstancePage.PageNumber p)) (pages_of (ListInstances_run Do cc s ireq fuel)) =
        map int [0..<length (pages_of (ListInstances_run Do cc s ireq fuel))]) \<and>
   (length (pages_of (ListZones_run Do cc s zreq fuel)) \<le> 2 ^ 63 \<longrightarrow>
      map (\<lambda>p. sint (ZonePage.PageNumber p)) (pages_of (ListZones_run Do cc s zreq fuel)) =
        map int [0..<length (pages_of (ListZones_run Do cc s zreq fuel))]) \<and>
   (length (pages_of (ListDNSRecordSets_run Do cc s rreq fuel)) \<le> 2 ^ 63 \<longrightarrow>
      map (\<lambda>p. sint (RecordSetPage.PageNumber p))
          (pages_of (ListDNSRecordSets_run Do cc s rreq fuel)) =
        map int [0..<length (pages_of (ListDNSRecordSets_run Do cc s rreq fuel))])"
proof -
  have I: "map InstancePage.PageNumber (pages_of (ListInstances_run Do cc s ireq fuel)) =
     map of_nat [0..<length (pages_of (ListInstances_run Do cc s ireq fuel))]"
  proof -
    obtain n lc where "ListInstances_run Do cc s ireq fuel =
        paginate mkInstancePage n Do cc (InstancesRequest.MaxPages (the ireq)) lc s '''' 0 0"
      using run_ListInstances [of Do cc s ireq fuel] by blast
    then show ?thesis
      using paginate_numbers [of InstancePage.PageNumber mkInstancePage n Do cc _ lc s "''''" 0 0]
      by (simp add: mkInstancePage_def)
  qed
  have Z: "map ZonePage.PageNumber (pages_of (ListZones_run Do cc s zreq fuel)) =
     map of_nat [0..<length (pages_of (ListZones_run Do cc s zreq fuel))]"
  proof -
    obtain n lc where "ListZones_run Do cc s zreq fuel =
        paginate mkZonePage n Do cc (ZoneRequest.MaxPages (the zreq)) lc s '''' 0 0"
      using run_ListZones [of Do cc s zreq fuel] by blast
    then show ?thesis
      using paginate_numbers [of ZonePage.PageNumber mkZonePage n Do cc _ lc s "''''" 0 0]
      by (simp add: mkZonePage_def)
  qed
  have R: "map RecordSetPage.PageNumber (pages_of (ListDNSRecordSets_run Do cc s rreq fuel)) =
     map of_nat [0..<length (pages_of (ListDNSRecordSets_run Do cc s rreq fuel))]"
  proof -
    obtain n lc where "ListDNSRecordSets_run Do cc s rreq fuel =
        paginate mkRecordSetPage n Do cc (RecordSetRequest.MaxPages (the rreq)) lc s '''' 0 0"
      using run_ListDNSRecordSets [of Do cc s rreq fuel] by blast
    then show ?thesis
      using paginate_numbers [of RecordSetPage.PageNumber mkRecordSetPage n Do cc _ lc s "''''" 0 0]
      by (simp add: mkRecordSetPage_def)
  qed
  show ?thesis
    by (intro conjI impI I Z R numbered_sint_of [OF I] numbered_sint_of [OF Z]
        numbered_sint_of [OF R])
qed


theorem page_numbers_count_up_from_zero_witness:
  "length (pages_of (ListInstances_run (seq_lister three_pages) (\<lambda>k. False) 0
       (Some (instances_request 0 0)) 5)) \<le> 2 ^ 63 \<and>
   map (\<lambda>p. sint (InstancePage.PageNumber p))
     (pages_of (ListInstances_run (seq_lister three_pages) (\<lambda>k. False) 0
       (Some (instances_request 0 0)) 5)) = [0, 1, 2] \<and>
   length (pages_of (ListZones_run (seq_lister three_pages) (\<lambda>k. False) 0
       (Some (zone_request 0 0)) 5)) \<le> 2 ^ 63 \<and>
   map (\<lambda>p. sint (ZonePage.PageNumber p))
     (pages_of (ListZones_run (seq_lister three_pages) (\<lambda>k. False) 0
       (Some (zone_request 0 0)) 5)) = [0, 1, 2] \<and>
   length (pages_of (ListDNSRecordSets_run (seq_lister three_pages) (\<lambda>k. False) 0
       (Some (recordset_request 0 0)) 5)) \<le> 2 ^ 63 \<and>
   map (\<lambda>p. sint (RecordSetPage.PageNumber p))
     (pages_of (ListDNSRecordSets_run (seq_lister three_pages) (\<lambda>k. False) 0
       (Some (recordset_request 0 0)) 5)) = [0, 1, 2]"
proof -
  have lI: "length (pages_of (ListInstances_run (seq_lister three_pages) (\<lambda>k. False) 0
       (Some (instances_request 0 0)) 5)) = 3"
    by (simp add: run_defs seq_lister_def three_pages_def eval_nat_numeral)
  have lZ: "length (pages_of (ListZones_run (seq_lister three_pages) (\<lambda>k. False) 0
       (Some (zone_request 0 0)) 5)) = 3"
    by (simp add: run_defs seq_lister_def three_pages_def eval_nat_numeral)
  have lR: "length (pages_of (ListDNSRecordSets_run (seq_lister three_pages) (\<lambda>k. False) 0
       (Some (recordset_request 0 0)) 5)) = 3"
    by (simp add: run_defs seq_lister_def three_pages_def eval_nat_numeral)
  have up: "map int [0..<3] = [0, 1, 2]"
    by (simp add: eval_nat_numeral)
  from page_numbers_count_up_from_zero [where Do = "seq_lister three_pages"
      and cc = "\<lambda>k. False" and s = 0 and fuel = 5 and ireq = "Some (instances_request 0 0)"
      and zreq = "Some (zone_request 0 0)" and rreq = "Some (recordset_request 0 0)"]
  show ?thesis
    by (simp only: lI lZ lR up) simp
qed
section \<open>Fetch failures\<close>

text \<open>
  C3. In every page stream of the three listing operations, a failed fetch is followed
  by exactly the emission of one page, carrying the page counter (the number of pages
  emitted before) and the error, and then by the close of the stream: the error page is
  the last page. In particular, when the first fetch fails the stream is that one page,
  numbered 0, and is closed.
\<close>

theorem fetch_failure_ends_stream:
  "(ListInstances_run Do cc s ireq fuel = preI @ Fetch c (Inl e) # postI \<longrightarrow>
      postI = [Emit \<lparr>InstancePage.Err = Some e,
                     PageNumber = of_nat (length (pages_of preI)), Instances = []\<rparr>, Close]) \<and>
   (ListZones_run Do cc s zreq fuel = preZ @ Fetch c (Inl e) # postZ \<longrightarrow>
      postZ = [Emit \<lparr>ZonePage.Err = Some e,
                     PageNumber = of_nat (length (pages_of preZ)), Zones = []\<rparr>, Close]) \<and>
   (ListDNSRecordSets_run Do cc s rreq fuel = preR @ Fetch c (Inl e) # postR \<longrightarrow>
      postR = [Emit \<lparr>RecordSetPage.Err = Some e,
                     PageNumber = of_nat (length (pages_of preR)), RecordSets = []\<rparr>, Close]) \<and>
   (ListInstances_run Do cc s ireq fuel = Fetch c (Inl e) # postI \<longrightarrow>
      pages_of (ListInstances_run Do cc s ireq fuel) =
        [\<lparr>InstancePage.Err = Some e, PageNumber = 0, Instances = []\<rparr>] \<and>
      last (ListInstances_run Do cc s ireq fuel) = Close) \<and>
   (ListZones_run Do cc s zreq fuel = Fetch c (Inl e) # postZ \<longrightarrow>
      pages_of (ListZones_run Do cc s zreq fuel) =
        [\<lparr>ZonePage.Err = Some e, PageNumber = 0, Zones = []\<rparr>] \<and>
      last (ListZones_run Do cc s zreq fuel) = Close) \<and>
   (ListDNSRecordSets_run Do cc s rreq fuel = Fetch c (Inl e) # postR \<longrightarrow>
      pages_of (ListDNSRecordSets_run Do cc s rreq fuel) =
        [\<lparr>RecordSetPage.Err = Some e, PageNumber = 0, RecordSets = []\<rparr>] \<and>
      last (ListDNSRecordSets_run Do cc s rreq fuel) = Close)"
proof -
  have I: "post = [Emit \<lparr>InstancePage.Err = Some e,
                     PageNumber = of_nat (length (pages_of pre)), Instances = []\<rparr>, Close]"
    if a: "ListInstances_run Do cc s ireq fuel = pre @ Fetch c (Inl e) # post" for pre post
  proof -
    obtain n lc where "ListInstances_run Do cc s ireq fuel =
        paginate mkInstancePage n Do cc (InstancesRequest.MaxPages (the ireq)) lc s '''' 0 0"
      using run_ListInstances [of Do cc s ireq fuel] by blast
    with a paginate_failed_fetch [of mkInstancePage n Do cc _ lc s "''''" 0 0 pre c e post]
    show ?thesis by (simp add: mkInstancePage_def)
  qed
  have Z: "post = [Emit \<lparr>ZonePage.Err = Some e,
                     PageNumber = of_nat (length (pages_of pre)), Zones = []\<rparr>, Close]"
    if a: "ListZones_run Do cc s zreq fuel = pre @ Fetch c (Inl e) # post" for pre post
  proof -
    obtain n lc where "ListZones_run Do cc s zreq fuel =
        paginate mkZonePage n Do cc (ZoneRequest.MaxPages (the zreq)) lc s '''' 0 0"
      using run_ListZones [of Do cc s zreq fuel] by blast
    with a paginate_failed_fetch [of mkZonePage n Do cc _ lc s "''''" 0 0 pre c e post]
    show ?thesis by (simp add: mkZonePage_def)
  qed
  have R: "post = [Emit \<lparr>RecordSetPage.Err = Some e,
                     PageNumber = of_nat (length (pages_of pre)), RecordSets = []\<rparr>, Close]"
    if a: "ListDNSRecordSets_run Do cc s rreq fuel = pre @ Fetch c (Inl e) # post" for pre post
  proof -
    obtain n lc where "ListDNSRecordSets_run Do cc s rreq fuel =
        paginate mkRecordSetPage n Do cc (RecordSetRequest.MaxPages (the rreq)) lc s '''' 0 0"
      using run_ListDNSRecordSets [of Do cc s rreq fuel] by blast
    with a paginate_failed_fetch [of mkRecordSetPage n Do cc _ lc s "''''" 0 0 pre c e post]
    show ?thesis by (simp add: mkRecordSetPage_def)
  qed
  have I0: "pages_of (ListInstances_run Do cc s ireq fuel) =
        [\<lparr>InstancePage.Err = Some e, PageNumber = 0, Instances = []\<rparr>] \<and>
      last (ListInstances_run Do cc s ireq fuel) = Close"
    if a: "ListInstances_run Do cc s ireq fuel = Fetch c (Inl e) # postI"
    using I [of "[]" postI] a by simp
  have Z0: "pages_of (ListZones_run Do cc s zreq fuel) =
        [\<lparr>ZonePage.Err = Some e, PageNumber = 0, Zones = []\<rparr>] \<and>
      last (ListZones_run Do cc s zreq fuel) = Close"
    if a: "ListZones_run Do cc s zreq fuel = Fetch c (Inl e) # postZ"
    using Z [of "[]" postZ] a by simp
  have R0: "pages_of (ListDNSRecordSets_run Do cc s rreq fuel) =
        [\<lparr>RecordSetPage.Err = Some e, PageNumber = 0, RecordSets = []\<rparr>] \<and>
      last (ListDNSRecordSets_run Do cc s rreq fuel) = Close"
    if a: "ListDNSRecordSets_run Do cc s rreq fuel = Fetch c (Inl e) # postR"
    using R [of "[]" postR] a by simp
  show ?thesis
    using I [of preI postI] Z [of preZ postZ] R [of preR postR] I0 Z0 R0 by blast
qed

theorem fetch_failure_ends_stream_witness:
  "ListInstances_run failing_service (\<lambda>k. False) () (Some (instances_request 0 0)) 1 =
     Fetch (default_call [''proj'', ''zone-a'']) (Inl (RemoteError ''unavailable'')) #
     [Emit \<lparr>InstancePage.Err = Some (RemoteError ''unavailable''), PageNumber = 0,
            Instances = []\<rparr>, Close] \<and>
   ListZones_run failing_service (\<lambda>k. False) () (Some (zone_request 0 0)) 1 =
     Fetch (default_call [''proj'']) (Inl (RemoteError ''unavailable'')) #
     [Emit \<lparr>ZonePage.Err = Some (RemoteError ''unavailable''), PageNumber = 0,
            Zones = []\<rparr>, Close] \<and>
   ListDNSRecordSets_run failing_service (\<lambda>k. False) () (Some (recordset_request 0 0)) 1 =
     Fetch (default_call [''proj'', ''zone-a'']) (Inl (RemoteError ''unavailable'')) #
     [Emit \<lparr>RecordSetPage.Err = Some (RemoteError ''unavailable''), PageNumber = 0,
            RecordSets = []\<rparr>, Close] \<and>
   pages_of (ListInstances_run failing_service (\<lambda>k. False) () (Some (instances_request 0 0)) 1) =
     [\<lparr>InstancePage.Err = Some (RemoteError ''unavailable''), PageNumber = 0, Instances = []\<rparr>] \<and>
   ListInstances_run (seq_lister second_fails) (\<lambda>k. False) 0 (Some (instances_request 0 0)) 2 =
     [Fetch (default_call [''proj'', ''zone-a''])
        (Inr \<lparr>Items = [''a'', ''b''], NextPageToken = ''t1''\<rparr>),
      Emit \<lparr>InstancePage.Err = None, PageNumber = 0, Instances = [''a'', ''b'']\<rparr>,
      Select False] @
     Fetch (default_call [''proj'', ''zone-a'']) (Inl (RemoteError ''unavailable'')) #
     [Emit \<lparr>InstancePage.Err = Some (RemoteError ''unavailable''), PageNumber = 1,
            Instances = []\<rparr>, Close]"
proof -
  have hI: "ListInstances_run failing_service (\<lambda>k. False) () (Some (instances_request 0 0)) 1 =
     [] @ Fetch (default_call [''proj'', ''zone-a'']) (Inl (RemoteError ''unavailable'')) #
     [Emit \<lparr>InstancePage.Err = Some (RemoteError ''unavailable''), PageNumber = 0,
            Instances = []\<rparr>, Close]"
    by (simp add: run_defs failing_service_def default_call_def)
  have hZ: "ListZones_run failing_service (\<lambda>k. False) () (Some (zone_request 0 0)) 1 =
     [] @ Fetch (default_call [''proj'']) (Inl (RemoteError ''unavailable'')) #
     [Emit \<lparr>ZonePage.Err = Some (RemoteError ''unavailable''), PageNumber = 0,
            Zones = []\<rparr>, Close]"
    by (simp add: run_defs failing_service_def default_call_def)
  have hR: "ListDNSRecordSets_run failing_service (\<lambda>k. False) () (Some (recordset_request 0 0)) 1 =
     [] @ Fetch (default_call [''proj'', ''zone-a'']) (Inl (RemoteError ''unavailable'')) #
     [Emit \<lparr>RecordSetPage.Err = Some (RemoteError ''unavailable''), PageNumber = 0,
            RecordSets = []\<rparr>, Close]"
    by (simp add: run_defs failing_service_def default_call_def)
  have h2: "ListInstances_run (seq_lister second_fails) (\<lambda>k. False) 0
       (Some (instances_request 0 0)) 2 =
     [Fetch (default_call [''proj'', ''zone-a''])
        (Inr \<lparr>Items = [''a'', ''b''], NextPageToken = ''t1''\<rparr>),
      Emit \<lparr>InstancePage.Err = None, PageNumber = 0, Instances = [''a'', ''b'']\<rparr>,
      Select False] @
     Fetch (default_call [''proj'', ''zone-a'']) (Inl (RemoteError ''unavailable'')) #
     [Emit \<lparr>InstancePage.Err = Some (RemoteError ''unavailable''), PageNumber = 1,
            Instances = []\<rparr>, Close]"
    by (simp add: run_defs seq_lister_def second_fails_def default_call_def eval_nat_numeral)
  note t1 = fetch_failure_ends_stream [where Do = failing_service and cc = "\<lambda>k. False"
      and s = "()" and fuel = 1 and ireq = "Some (instances_request 0 0)"
      and zreq = "Some (zone_request 0 0)" and rreq = "Some (recordset_request 0 0)"
      and e = "RemoteError ''unavailable''"]
  note t2 = fetch_failure_ends_stream [where Do = "seq_lister second_fails"
      and cc = "\<lambda>k. False" and s = 0 and fuel = 2 and ireq = "Some (instances_request 0 0)"
      and e = "RemoteError ''unavailable''" and c = "default_call [''proj'', ''zone-a'']"
      and preI = "[Fetch (default_call [''proj'', ''zone-a''])
          (Inr \<lparr>Items = [''a'', ''b''], NextPageToken = ''t1''\<rparr>),
        Emit \<lparr>InstancePage.Err = None, PageNumber = 0, Instances = [''a'', ''b'']\<rparr>,
        Select False]"]
  from hI hZ hR h2 t2
    t1 [where c = "default_call [''proj'', ''zone-a'']" and preI = "[]" and preR = "[]"]
    t1 [where c = "default_call [''proj'']" and preZ = "[]"]
  show ?thesis by simp
qed

section \<open>Cancellation\<close>

text \<open>
  C4. In every page stream of the three listing operations, a successful fetch is
  followed at once by the emission of the page it fetched, and every throttle
  checkpoint (the only place where the cancel signal is read) comes right after such an
  emission: a fetched page is delivered before cancellation is looked at. When the
  checkpoint observes cancellation, all that follows is the close of the stream: no
  further page, no error page.
\<close>

theorem cancellation_only_after_delivery:
  "(ListInstances_run Do cc s ireq fuel = preI @ Fetch c (Inr r) # postI \<longrightarrow>
      (\<exists>rest. postI = Emit \<lparr>InstancePage.Err = None,
          PageNumber = of_nat (length (pages_of preI)), Instances = Items r\<rparr> # rest)) \<and>
   (ListZones_run Do cc s zreq fuel = preZ @ Fetch c (Inr r) # postZ \<longrightarrow>
      (\<exists>rest. postZ = Emit \<lparr>ZonePage.Err = None,
          PageNumber = of_nat (length (pages_of preZ)), Zones = Items r\<rparr> # rest)) \<and>
   (ListDNSRecordSets_run Do cc s rreq fuel = preR @ Fetch c (Inr r) # postR \<longrightarrow>
      (\<exists>rest. postR = Emit \<lparr>RecordSetPage.Err = None,
          PageNumber = of_nat (length (pages_of preR)), RecordSets = Items r\<rparr> # rest)) \<and>
   (ListInstances_run Do cc s ireq fuel = beforeI @ Select b # afterI \<longrightarrow>
      (\<exists>pre' c' r'. beforeI = pre' @ [Fetch c' (Inr r'), Emit \<lparr>InstancePage.Err = None,
          PageNumber = of_nat (length (pages_of pre')), Instances = Items r'\<rparr>]) \<and>
      (b \<longrightarrow> afterI = [Close])) \<and>
   (ListZones_run Do cc s zreq fuel = beforeZ @ Select b # afterZ \<longrightarrow>
      (\<exists>pre' c' r'. beforeZ = pre' @ [Fetch c' (Inr r'), Emit \<lparr>ZonePage.Err = None,
          PageNumber = of_nat (length (pages_of pre')), Zones = Items r'\<rparr>]) \<and>
      (b \<longrightarrow> afterZ = [Close])) \<and>
   (ListDNSRecordSets_run Do cc s rreq fuel = beforeR @ Select b # afterR \<longrightarrow>
      (\<exists>pre' c' r'. beforeR = pre' @ [Fetch c' (Inr r'), Emit \<lparr>RecordSetPage.Err = None,
          PageNumber = of_nat (length (pages_of pre')), RecordSets = Items r'\<rparr>]) \<and>
      (b \<longrightarrow> afterR = [Close]))"
proof -
  obtain nI lcI where rI: "ListInstances_run Do cc s ireq fuel =
      paginate mkInstancePage nI Do cc (InstancesRequest.MaxPages (the ireq)) lcI s '''' 0 0"
    using run_ListInstances [of Do cc s ireq fuel] by blast
  obtain nZ lcZ where rZ: "ListZones_run Do cc s zreq fuel =
      paginate mkZonePage nZ Do cc (ZoneRequest.MaxPages (the zreq)) lcZ s '''' 0 0"
    using run_ListZones [of Do cc s zreq fuel] by blast
  obtain nR lcR where rR: "ListDNSRecordSets_run Do cc s rreq fuel =
      paginate mkRecordSetPage nR Do cc (RecordSetRequest.MaxPages (the rreq)) lcR s '''' 0 0"
    using run_ListDNSRecordSets [of Do cc s rreq fuel] by blast
  have I1: "ListInstances_run Do cc s ireq fuel = preI @ Fetch c (Inr r) # postI \<longrightarrow>
      (\<exists>rest. postI = Emit \<lparr>InstancePage.Err = None,
          PageNumber = of_nat (length (pages_of preI)), Instances = Items r\<rparr> # rest)"
    using paginate_fetched [of mkInstancePage nI Do cc "InstancesRequest.MaxPages (the ireq)" lcI s "''''" 0 0 preI c r postI]
    by (simp add: rI mkInstancePage_def)
  have Z1: "ListZones_run Do cc s zreq fuel = preZ @ Fetch c (Inr r) # postZ \<longrightarrow>
      (\<exists>rest. postZ = Emit \<lparr>ZonePage.Err = None,
          PageNumber = of_nat (length (pages_of preZ)), Zones = Items r\<rparr> # rest)"
    using paginate_fetched [of mkZonePage nZ Do cc "ZoneRequest.MaxPages (the zreq)" lcZ s "''''" 0 0 preZ c r postZ]
    by (simp add: rZ mkZonePage_def)
  have R1: "ListDNSRecordSets_run Do cc s rreq fuel = preR @ Fetch c (Inr r) # postR \<longrightarrow>
      (\<exists>rest. postR = Emit \<lparr>RecordSetPage.Err = None,
          PageNumber = of_nat (length (pages_of preR)), RecordSets = Items r\<rparr> # rest)"
    using paginate_fetched [of mkRecordSetPage nR Do cc "RecordSetRequest.MaxPages (the rreq)" lcR s "''''" 0 0 preR c r postR]
    by (simp add: rR mkRecordSetPage_def)
  have I2: "ListInstances_run Do cc s ireq fuel = beforeI @ Select b # afterI \<longrightarrow>
      (\<exists>pre' c' r'. beforeI = pre' @ [Fetch c' (Inr r'), Emit \<lparr>InstancePage.Err = None,
          PageNumber = of_nat (length (pages_of pre')), Instances = Items r'\<rparr>]) \<and>
      (b \<longrightarrow> afterI = [Close])"
    using paginate_select [of mkInstancePage nI Do cc "InstancesRequest.MaxPages (the ireq)" lcI s "''''" 0 0 beforeI b afterI]
    by (simp add: rI mkInstancePage_def)
  have Z2: "ListZones_run Do cc s zreq fuel = beforeZ @ Select b # afterZ \<longrightarrow>
      (\<exists>pre' c' r'. beforeZ = pre' @ [Fetch c' (Inr r'), Emit \<lparr>ZonePage.Err = None,
          PageNumber = of_nat (length (pages_of pre')), Zones = Items r'\<rparr>]) \<and>
      (b \<longrightarrow> afterZ = [Close])"
    using paginate_select [of mkZonePage nZ Do cc "ZoneRequest.MaxPages (the zreq)" lcZ s "''''" 0 0 beforeZ b afterZ]
    by (simp add: rZ mkZonePage_def)
  have R2: "ListDNSRecordSets_run Do cc s rreq fuel = beforeR @ Select b # afterR \<longrightarrow>
      (\<exists>pre' c' r'. beforeR = pre' @ [Fetch c' (Inr r'), Emit \<lparr>RecordSetPage.Err = None,
          PageNumber = of_nat (length (pages_of pre')), RecordSets = Items r'\<rparr>]) \<and>
      (b \<longrightarrow> afterR = [Close])"
    using paginate_select [of mkRecordSetPage nR Do cc "RecordSetRequest.MaxPages (the rreq)" lcR s "''''" 0 0 beforeR b afterR]
    by (simp add: rR mkRecordSetPage_def)
  show ?thesis
    by (intro conjI I1 Z1 R1 I2 Z2 R2)
qed

theorem cancellation_only_after_delivery_witness:
  "ListInstances_run two_page_collection (\<lambda>k. True) () (Some (instances_request 0 0)) 3 =
     [Fetch (default_call [''proj'', ''zone-a''])
        (Inr \<lparr>Items = [''a'', ''b''], NextPageToken = ''t1''\<rparr>),
      Emit \<lparr>InstancePage.Err = None, PageNumber = 0, Instances = [''a'', ''b'']\<rparr>] @
     Select True # [Close] \<and>
   ListZones_run two_page_collection (\<lambda>k. True) () (Some (zone_request 0 0)) 3 =
     [Fetch (default_call [''proj''])
        (Inr \<lparr>Items = [''a'', ''b''], NextPageToken = ''t1''\<rparr>),
      Emit \<lparr>ZonePage.Err = None, PageNumber = 0, Zones = [''a'', ''b'']\<rparr>] @
     Select True # [Close] \<and>
   ListDNSRecordSets_run two_page_collection (\<lambda>k. True) () (Some (recordset_request 0 0)) 3 =
     [Fetch (default_call [''proj'', ''zone-a''])
        (Inr \<lparr>Items = [''a'', ''b''], NextPageToken = ''t1''\<rparr>),
      Emit \<lparr>RecordSetPage.Err = None, PageNumber = 0, RecordSets = [''a'', ''b'']\<rparr>] @
     Select True # [Close]"
proof -
  let ?r = "\<lparr>Items = [''a'', ''b''], NextPageToken = ''t1''\<rparr>"
  let ?pI = "\<lparr>InstancePage.Err = None, PageNumber = 0, Instances = [''a'', ''b'']\<rparr>"
  let ?pZ = "\<lparr>ZonePage.Err = None, PageNumber = 0, Zones = [''a'', ''b'']\<rparr>"
  let ?pR = "\<lparr>RecordSetPage.Err = None, PageNumber = 0, RecordSets = [''a'', ''b'']\<rparr>"
  have hI: "ListInstances_run two_page_collection (\<lambda>k. True) () (Some (instances_request 0 0)) 3 =
     [Fetch (default_call [''proj'', ''zone-a'']) (Inr ?r), Emit ?pI] @ Select True # [Close]"
    by (simp add: run_defs two_page_collection_def default_call_def eval_nat_numeral)
  have hZ: "ListZones_run two_page_collection (\<lambda>k. True) () (Some (zone_request 0 0)) 3 =
     [Fetch (default_call [''proj'']) (Inr ?r), Emit ?pZ] @ Select True # [Close]"
    by (simp add: run_defs two_page_collection_def default_call_def eval_nat_numeral)
  have hR: "ListDNSRecordSets_run two_page_collection (\<lambda>k. True) ()
       (Some (recordset_request 0 0)) 3 =
     [Fetch (default_call [''proj'', ''zone-a'']) (Inr ?r), Emit ?pR] @ Select True # [Close]"
    by (simp add: run_defs two_page_collection_def default_call_def eval_nat_numeral)
  have hI': "ListInstances_run two_page_collection (\<lambda>k. True) () (Some (instances_request 0 0)) 3 =
     [] @ Fetch (default_call [''proj'', ''zone-a'']) (Inr ?r) # [Emit ?pI, Select True, Close]"
    using hI by simp
  have hZ': "ListZones_run two_page_collection (\<lambda>k. True) () (Some (zone_request 0 0)) 3 =
     [] @ Fetch (default_call [''proj'']) (Inr ?r) # [Emit ?pZ, Select True, Close]"
    using hZ by simp
  have hR': "ListDNSRecordSets_run two_page_collection (\<lambda>k. True) ()
       (Some (recordset_request 0 0)) 3 =
     [] @ Fetch (default_call [''proj'', ''zone-a'']) (Inr ?r) # [Emit ?pR, Select True, Close]"
    using hR by simp
  note t = cancellation_only_after_delivery [where Do = two_page_collection
      and cc = "\<lambda>k. True" and s = "()" and fuel = 3 and ireq = "Some (instances_request 0 0)"
      and zreq = "Some (zone_request 0 0)" and rreq = "Some (recordset_request 0 0)"
      and r = ?r and b = True
      and beforeI = "[Fetch (default_call [''proj'', ''zone-a'']) (Inr ?r), Emit ?pI]"
      and beforeZ = "[Fetch (default_call [''proj'']) (Inr ?r), Emit ?pZ]"
      and beforeR = "[Fetch (default_call [''proj'', ''zone-a'']) (Inr ?r), Emit ?pR]"
      and afterI = "[Close]" and afterZ = "[Close]" and afterR = "[Close]"
      and preI = "[]" and preZ = "[]" and preR = "[]"
      and postI = "[Emit ?pI, Select True, Close]" and postZ = "[Emit ?pZ, Select True, Close]"
      and postR = "[Emit ?pR, Select True, Close]"]
  from hI hZ hR hI' hZ' hR'
    t [where c = "default_call [''proj'', ''zone-a'']"] t [where c = "default_call [''proj'']"]
  show ?thesis by blast
qed

section \<open>Page size\<close>

text \<open>
  C9. In every page stream of the three listing operations, every remote call is made
  with the same page size: the request's \<open>ResultsPerPage\<close> when that is greater than 0,
  and 40 otherwise. It is set on the call once, before the loop, and no iteration
  changes it.
\<close>

theorem page_size_resolved_once:
  "map param_maxResults (calls_of (ListInstances_run Do cc s ireq fuel)) =
     replicate (length (calls_of (ListInstances_run Do cc s ireq fuel)))
       (Some (if sint (InstancesRequest.ResultsPerPage (the ireq)) > 0
              then InstancesRequest.ResultsPerPage (the ireq) else 40)) \<and>
   map param_maxResults (calls_of (ListZones_run Do cc s zreq fuel)) =
     replicate (length (calls_of (ListZones_run Do cc s zreq fuel)))
       (Some (if sint (ZoneRequest.ResultsPerPage (the zreq)) > 0
              then ZoneRequest.ResultsPerPage (the zreq) else 40)) \<and>
   map param_maxResults (calls_of (ListDNSRecordSets_run Do cc s rreq fuel)) =
     replicate (length (calls_of (ListDNSRecordSets_run Do cc s rreq fuel)))
       (Some (if sint (RecordSetRequest.ResultsPerPage (the rreq)) > 0
              then RecordSetRequest.ResultsPerPage (the rreq) else 40))"
proof -
  obtain nI lcI where rI: "ListInstances_run Do cc s ireq fuel =
      paginate mkInstancePage nI Do cc (InstancesRequest.MaxPages (the ireq)) lcI s '''' 0 0"
    and mI: "param_maxResults lcI =
      Some (if sint (InstancesRequest.ResultsPerPage (the ireq)) > 0
            then InstancesRequest.ResultsPerPage (the ireq) else 40)"
    using run_ListInstances [of Do cc s ireq fuel] by blast
  obtain nZ lcZ where rZ: "ListZones_run Do cc s zreq fuel =
      paginate mkZonePage nZ Do cc (ZoneRequest.MaxPages (the zreq)) lcZ s '''' 0 0"
    and mZ: "param_maxResults lcZ =
      Some (if sint (ZoneRequest.ResultsPerPage (the zreq)) > 0
            then ZoneRequest.ResultsPerPage (the zreq) else 40)"
    using run_ListZones [of Do cc s zreq fuel] by blast
  obtain nR lcR where rR: "ListDNSRecordSets_run Do cc s rreq fuel =
      paginate mkRecordSetPage nR Do cc (RecordSetRequest.MaxPages (the rreq)) lcR s '''' 0 0"
    and mR: "param_maxResults lcR =
      Some (if sint (RecordSetRequest.ResultsPerPage (the rreq)) > 0
            then RecordSetRequest.ResultsPerPage (the rreq) else 40)"
    using run_ListDNSRecordSets [of Do cc s rreq fuel] by blast
  have I: "map param_maxResults (calls_of (ListInstances_run Do cc s ireq fuel)) =
     replicate (length (calls_of (ListInstances_run Do cc s ireq fuel)))
       (param_maxResults lcI)"
    unfolding rI
    by (subst paginate_calls) simp
  have Z: "map param_maxResults (calls_of (ListZones_run Do cc s zreq fuel)) =
     replicate (length (calls_of (ListZones_run Do cc s zreq fuel)))
       (param_maxResults lcZ)"
    unfolding rZ
    by (subst paginate_calls) simp
  have R: "map param_maxResults (calls_of (ListDNSRecordSets_run Do cc s rreq fuel)) =
     replicate (length (calls_of (ListDNSRecordSets_run Do cc s rreq fuel)))
       (param_maxResults lcR)"
    unfolding rR
    by (subst paginate_calls) simp
  show ?thesis
    using I Z R by (simp only: mI mZ mR)
qed

section \<open>One algorithm, three listing operations\<close>

text \<open>
  C6. The three listing operations run the same pagination algorithm: for well-formed
  requests with the same page bound, the same cancel signal and a remote service that
  returns the same sequence of fetch results, the page streams of \<open>ListInstances\<close>,
  \<open>ListZones\<close> and \<open>ListDNSRecordSets\<close> agree in page numbers, items, errors and closing,
  whatever each request asks for otherwise.
\<close>

theorem listing_operations_agree:
  assumes "InstancesRequest_Validate ireq = None"
    and "ZoneRequest_Validate zreq = None"
    and "RecordSetRequest_Validate rreq = None"
    and "InstancesRequest.MaxPages (the ireq) = ZoneRequest.MaxPages (the zreq)"
    and "RecordSetRequest.MaxPages (the rreq) = ZoneRequest.MaxPages (the zreq)"
  shows "page_stream InstancePage_view (ListInstances_run (seq_lister rs) cc i ireq fuel) =
           page_stream ZonePage_view (ListZones_run (seq_lister rs) cc i zreq fuel) \<and>
         page_stream RecordSetPage_view (ListDNSRecordSets_run (seq_lister rs) cc i rreq fuel) =
           page_stream ZonePage_view (ListZones_run (seq_lister rs) cc i zreq fuel)"
proof -
  obtain lcI where rI: "ListInstances_run (seq_lister rs) cc i ireq fuel =
      paginate mkInstancePage fuel (seq_lister rs) cc (InstancesRequest.MaxPages (the ireq))
        lcI i '''' 0 0"
    using run_ListInstances_valid [OF assms(1), where Do = "seq_lister rs" and cc = cc and s = i and fuel = fuel] by blast
  obtain lcZ where rZ: "ListZones_run (seq_lister rs) cc i zreq fuel =
      paginate mkZonePage fuel (seq_lister rs) cc (ZoneRequest.MaxPages (the zreq))
        lcZ i '''' 0 0"
    using run_ListZones_valid [OF assms(2), where Do = "seq_lister rs" and cc = cc and s = i and fuel = fuel] by blast
  obtain lcR where rR: "ListDNSRecordSets_run (seq_lister rs) cc i rreq fuel =
      paginate mkRecordSetPage fuel (seq_lister rs) cc (RecordSetRequest.MaxPages (the rreq))
        lcR i '''' 0 0"
    using run_ListDNSRecordSets_valid [OF assms(3), where Do = "seq_lister rs" and cc = cc and s = i and fuel = fuel] by blast
  have vI: "InstancePage_view (mkInstancePage e n xs) = ZonePage_view (mkZonePage e n xs)"
    for e n and xs :: "'a list"
    by (simp add: InstancePage_view_def ZonePage_view_def mkInstancePage_def mkZonePage_def)
  have vR: "RecordSetPage_view (mkRecordSetPage e n xs) = ZonePage_view (mkZonePage e n xs)"
    for e n and xs :: "'a list"
    by (simp add: RecordSetPage_view_def ZonePage_view_def mkRecordSetPage_def mkZonePage_def)
  show ?thesis
    unfolding rI rZ rR assms(4) assms(5)
    by (intro conjI paginate_seq_agree vI vR)
qed

theorem listing_operations_agree_witness:
  "InstancesRequest_Validate (Some (instances_request 1 25)) = None \<and>
   ZoneRequest_Validate (Some (zone_request 1 0)) = None \<and>
   RecordSetRequest_Validate (Some (recordset_request 1 10)) = None \<and>
   InstancesRequest.MaxPages (the (Some (instances_request 1 25))) =
     ZoneRequest.MaxPages (the (Some (zone_request 1 0))) \<and>
   RecordSetRequest.MaxPages (the (Some (recordset_request 1 10))) =
     ZoneRequest.MaxPages (the (Some (zone_request 1 0))) \<and>
   page_stream ZonePage_view
     (ListZones_run (seq_lister three_pages) (\<lambda>k. False) 0 (Some (zone_request 1 0)) 4) =
     ([(0, [''a'', ''b''], None), (1, [''c''], None)], True) \<and>
   page_stream InstancePage_view
     (ListInstances_run (seq_lister three_pages) (\<lambda>k. False) 0 (Some (instances_request 1 25)) 4) =
     ([(0, [''a'', ''b''], None), (1, [''c''], None)], True) \<and>
   page_stream RecordSetPage_view
     (ListDNSRecordSets_run (seq_lister three_pages) (\<lambda>k. False) 0
        (Some (recordset_request 1 10)) 4) =
     ([(0, [''a'', ''b''], None), (1, [''c''], None)], True)"
proof -
  have h1: "InstancesRequest_Validate (Some (instances_request 1 25)) = None"
    by (simp add: InstancesRequest_Validate_def instances_request_def)
  have h2: "ZoneRequest_Validate (Some (zone_request 1 0)) = None"
    by (simp add: ZoneRequest_Validate_def zone_request_def)
  have h3: "RecordSetRequest_Validate (Some (recordset_request 1 10)) = None"
    by (simp add: RecordSetRequest_Validate_def recordset_request_def)
  have h4: "InstancesRequest.MaxPages (the (Some (instances_request 1 25))) =
      ZoneRequest.MaxPages (the (Some (zone_request 1 0)))"
    by (simp add: instances_request_def zone_request_def)
  have h5: "RecordSetRequest.MaxPages (the (Some (recordset_request 1 10))) =
      ZoneRequest.MaxPages (the (Some (zone_request 1 0)))"
    by (simp add: recordset_request_def zone_request_def)
  have z: "page_stream ZonePage_view
     (ListZones_run (seq_lister three_pages) (\<lambda>k. False) 0 (Some (zone_request 1 0)) 4) =
     ([(0, [''a'', ''b''], None), (1, [''c''], None)], True)"
    by (simp add: run_defs seq_lister_def three_pages_def page_stream_def ZonePage_view_def
        eval_nat_numeral)
  from listing_operations_agree [OF h1 h2 h3 h4 h5, of three_pages "\<lambda>k. False" 0 4] z h1 h2 h3 h4 h5
  show ?thesis by simp
qed

section \<open>The cancel function\<close>

text \<open>
  C7. The cancel function is idempotent. Not invoked, it leaves the canceler as it was
  made; invoked once or more, it never panics, returns a nil error every time, and
  leaves the canceler in the state the first invocation produced (the channel closed),
  on which a further invocation changes nothing. So what a checkpoint of a listing loop
  observes depends only on whether the function has been invoked at all, and the page
  stream is the same however often it was invoked.
\<close>

theorem cancel_is_idempotent:
  "cancel_times 0 makeCanceler = Inr ([], makeCanceler) \<and>
   cancel_times (Suc n) makeCanceler =
     Inr (replicate (Suc n) None, \<lparr>cancelOnce_done = True, cancelChan_closed = True\<rparr>) \<and>
   cancel \<lparr>cancelOnce_done = True, cancelChan_closed = True\<rparr> =
     Inr (None, \<lparr>cancelOnce_done = True, cancelChan_closed = True\<rparr>) \<and>
   cancel_signal n = (0 < n) \<and>
   ListInstances_run Do (\<lambda>k. cancel_signal (calls k)) s ireq fuel =
     ListInstances_run Do (\<lambda>k. cancel_signal (if calls k = 0 then 0 else 1)) s ireq fuel \<and>
   ListZones_run Do (\<lambda>k. cancel_signal (calls k)) s zreq fuel =
     ListZones_run Do (\<lambda>k. cancel_signal (if calls k = 0 then 0 else 1)) s zreq fuel \<and>
   ListDNSRecordSets_run Do (\<lambda>k. cancel_signal (calls k)) s rreq fuel =
     ListDNSRecordSets_run Do (\<lambda>k. cancel_signal (if calls k = 0 then 0 else 1)) s rreq fuel"
proof -
  let ?done = "\<lparr>cancelOnce_done = True, cancelChan_closed = True\<rparr>"
  have again: "cancel_times m ?done = Inr (replicate m None, ?done)" for m
    by (induction m) (simp_all add: cancel_def)
  have first: "cancel makeCanceler = Inr (None, ?done)"
    by (simp add: cancel_def makeCanceler_def close_cancelChan_def)
  have many: "cancel_times (Suc m) makeCanceler = Inr (replicate (Suc m) None, ?done)" for m
    by (simp add: first again)
  have sig: "cancel_signal m = (0 < m)" for m
  proof (cases m)
    case 0
    then show ?thesis by (simp add: cancel_signal_def makeCanceler_def)
  next
    case (Suc m')
    then show ?thesis by (simp add: cancel_signal_def many del: cancel_times.simps)
  qed
  have same: "(\<lambda>k. cancel_signal (calls k)) = (\<lambda>k. cancel_signal (if calls k = 0 then 0 else 1))"
    by (rule ext) (simp add: sig)
  show ?thesis
    by (simp only: same many sig) (simp add: cancel_def)
qed

section \<open>The page token and the page bound\<close>

text \<open>
  C1. What the code does where the claim fails. In every run of the three listing
  loops every remote call carries the empty page token: the token a fetch returns is
  stored in a variable of the loop body and never reaches the next call. On the
  two-page collection, with no page bound and no cancellation, each operation therefore
  fetches and emits the first page again in every iteration (\<open>n\<close> iterations give \<open>n\<close>
  copies of it, numbered from 0) and never closes the stream.
\<close>

theorem page_token_never_threaded:
  "map param_pageToken (calls_of (ListInstances_run Do cc s ireq fuel)) =
     replicate (length (calls_of (ListInstances_run Do cc s ireq fuel))) (Some '''') \<and>
   map param_pageToken (calls_of (ListZones_run Do cc s zreq fuel)) =
     replicate (length (calls_of (ListZones_run Do cc s zreq fuel))) (Some '''') \<and>
   map param_pageToken (calls_of (ListDNSRecordSets_run Do cc s rreq fuel)) =
     replicate (length (calls_of (ListDNSRecordSets_run Do cc s rreq fuel))) (Some '''') \<and>
   pages_of (ListInstances_run two_page_collection (\<lambda>k. False) ()
       (Some (instances_request 0 0)) n) =
     map (\<lambda>i. \<lparr>InstancePage.Err = None, PageNumber = of_nat i, Instances = [''a'', ''b'']\<rparr>)
       [0..<n] \<and>
   Close \<notin> set (ListInstances_run two_page_collection (\<lambda>k. False) ()
       (Some (instances_request 0 0)) n) \<and>
   pages_of (ListZones_run two_page_collection (\<lambda>k. False) () (Some (zone_request 0 0)) n) =
     map (\<lambda>i. \<lparr>ZonePage.Err = None, PageNumber = of_nat i, Zones = [''a'', ''b'']\<rparr>) [0..<n] \<and>
   Close \<notin> set (ListZones_run two_page_collection (\<lambda>k. False) () (Some (zone_request 0 0)) n) \<and>
   pages_of (ListDNSRecordSets_run two_page_collection (\<lambda>k. False) ()
       (Some (recordset_request 0 0)) n) =
     map (\<lambda>i. \<lparr>RecordSetPage.Err = None, PageNumber = of_nat i, RecordSets = [''a'', ''b'']\<rparr>)
       [0..<n] \<and>
   Close \<notin> set (ListDNSRecordSets_run two_page_collection (\<lambda>k. False) ()
       (Some (recordset_request 0 0)) n)"
proof -
  have tI: "map param_pageToken (calls_of (ListInstances_run Do cc s ireq fuel)) =
     replicate (length (calls_of (ListInstances_run Do cc s ireq fuel))) (Some '''')"
  proof -
    obtain m lc where r: "ListInstances_run Do cc s ireq fuel =
        paginate mkInstancePage m Do cc (InstancesRequest.MaxPages (the ireq)) lc s '''' 0 0"
      using run_ListInstances [of Do cc s ireq fuel] by blast
    show ?thesis unfolding r by (subst paginate_calls) simp
  qed
  have tZ: "map param_pageToken (calls_of (ListZones_run Do cc s zreq fuel)) =
     replicate (length (calls_of (ListZones_run Do cc s zreq fuel))) (Some '''')"
  proof -
    obtain m lc where r: "ListZones_run Do cc s zreq fuel =
        paginate mkZonePage m Do cc (ZoneRequest.MaxPages (the zreq)) lc s '''' 0 0"
      using run_ListZones [of Do cc s zreq fuel] by blast
    show ?thesis unfolding r by (subst paginate_calls) simp
  qed
  have tR: "map param_pageToken (calls_of (ListDNSRecordSets_run Do cc s rreq fuel)) =
     replicate (length (calls_of (ListDNSRecordSets_run Do cc s rreq fuel))) (Some '''')"
  proof -
    obtain m lc where r: "ListDNSRecordSets_run Do cc s rreq fuel =
        paginate mkRecordSetPage m Do cc (RecordSetRequest.MaxPages (the rreq)) lc s '''' 0 0"
      using run_ListDNSRecordSets [of Do cc s rreq fuel] by blast
    show ?thesis unfolding r by (subst paginate_calls) simp
  qed
  have first: "two_page_collection () (lc\<lparr>param_pageToken := Some ''''\<rparr>) =
      (Inr \<lparr>Items = [''a'', ''b''], NextPageToken = ''t1''\<rparr>, ())" for lc
    by (simp add: two_page_collection_def)
  have more: "NextPageToken \<lparr>Items = [''a'', ''b''], NextPageToken = ''t1''\<rparr> \<noteq> ''''"
    by simp
  have pI: "pages_of (ListInstances_run two_page_collection (\<lambda>k. False) ()
         (Some (instances_request 0 0)) n) =
       map (\<lambda>i. \<lparr>InstancePage.Err = None, PageNumber = of_nat i, Instances = [''a'', ''b'']\<rparr>)
         [0..<n] \<and>
     Close \<notin> set (ListInstances_run two_page_collection (\<lambda>k. False) ()
         (Some (instances_request 0 0)) n)"
  proof -
    have "InstancesRequest_Validate (Some (instances_request 0 0)) = None"
      by (simp add: InstancesRequest_Validate_def instances_request_def)
    from run_ListInstances_valid [OF this, where Do = two_page_collection
        and cc = "\<lambda>k. False" and s = "()" and fuel = n]
    obtain lc where r: "ListInstances_run two_page_collection (\<lambda>k. False) ()
        (Some (instances_request 0 0)) n =
        paginate mkInstancePage n two_page_collection (\<lambda>k. False) 0 lc () '''' 0 0"
      by (auto simp: instances_request_def)
    from paginate_refetch [where Do = two_page_collection and s = "()" and lc = lc
        and tok = "''''" and mk = mkInstancePage and fuel = n and pn = 0 and k = 0,
        OF first more]
    show ?thesis unfolding r by (simp add: mkInstancePage_def)
  qed
  have pZ: "pages_of (ListZones_run two_page_collection (\<lambda>k. False) ()
         (Some (zone_request 0 0)) n) =
       map (\<lambda>i. \<lparr>ZonePage.Err = None, PageNumber = of_nat i, Zones = [''a'', ''b'']\<rparr>) [0..<n] \<and>
     Close \<notin> set (ListZones_run two_page_collection (\<lambda>k. False) () (Some (zone_request 0 0)) n)"
  proof -
    have "ZoneRequest_Validate (Some (zone_request 0 0)) = None"
      by (simp add: ZoneRequest_Validate_def zone_request_def)
    from run_ListZones_valid [OF this, where Do = two_page_collection
        and cc = "\<lambda>k. False" and s = "()" and fuel = n]
    obtain lc where r: "ListZones_run two_page_collection (\<lambda>k. False) ()
        (Some (zone_request 0 0)) n =
        paginate mkZonePage n two_page_collection (\<lambda>k. False) 0 lc () '''' 0 0"
      by (auto simp: zone_request_def)
    from paginate_refetch [where Do = two_page_collection and s = "()" and lc = lc
        and tok = "''''" and mk = mkZonePage and fuel = n and pn = 0 and k = 0,
        OF first more]
    show ?thesis unfolding r by (simp add: mkZonePage_def)
  qed
  have pR: "pages_of (ListDNSRecordSets_run two_page_collection (\<lambda>k. False) ()
         (Some (recordset_request 0 0)) n) =
       map (\<lambda>i. \<lparr>RecordSetPage.Err = None, PageNumber = of_nat i, RecordSets = [''a'', ''b'']\<rparr>)
         [0..<n] \<and>
     Close \<notin> set (ListDNSRecordSets_run two_page_collection (\<lambda>k. False) ()
         (Some (recordset_request 0 0)) n)"
  proof -
    have "RecordSetRequest_Validate (Some (recordset_request 0 0)) = None"
      by (simp add: RecordSetRequest_Validate_def recordset_request_def)
    from run_ListDNSRecordSets_valid [OF this, where Do = two_page_collection
        and cc = "\<lambda>k. False" and s = "()" and fuel = n]
    obtain lc where r: "ListDNSRecordSets_run two_page_collection (\<lambda>k. False) ()
        (Some (recordset_request 0 0)) n =
        paginate mkRecordSetPage n two_page_collection (\<lambda>k. False) 0 lc () '''' 0 0"
      by (auto simp: recordset_request_def)
    from paginate_refetch [where Do = two_page_collection and s = "()" and lc = lc
        and tok = "''''" and mk = mkRecordSetPage and fuel = n and pn = 0 and k = 0,
        OF first more]
    show ?thesis unfolding r by (simp add: mkRecordSetPage_def)
  qed
  from tI tZ tR pI pZ pR show ?thesis by blast
qed

text \<open>
  C2. What the code does where the claim fails. With \<open>MaxPages = 1\<close>, on a service that
  has three pages to give, each operation emits two pages (numbered 0 and 1) before it
  closes the stream: the loop stops when the incremented counter is greater than the
  bound, that is after one page more than the bound.
\<close>

theorem max_pages_one_emits_two_pages:
  "page_stream InstancePage_view
     (ListInstances_run (seq_lister three_pages) (\<lambda>k. False) 0
        (Some (instances_request 1 0)) (Suc (Suc fuel))) =
     ([(0, [''a'', ''b''], None), (1, [''c''], None)], True) \<and>
   page_stream ZonePage_view
     (ListZones_run (seq_lister three_pages) (\<lambda>k. False) 0
        (Some (zone_request 1 0)) (Suc (Suc fuel))) =
     ([(0, [''a'', ''b''], None), (1, [''c''], None)], True) \<and>
   page_stream RecordSetPage_view
     (ListDNSRecordSets_run (seq_lister three_pages) (\<lambda>k. False) 0
        (Some (recordset_request 1 0)) (Suc (Suc fuel))) =
     ([(0, [''a'', ''b''], None), (1, [''c''], None)], True)"
  by (simp add: run_defs seq_lister_def three_pages_def page_stream_def
      InstancePage_view_def ZonePage_view_def RecordSetPage_view_def)

end
